theory Spec2Isabelle
  imports Complex_Main "HOL-Library.Word"
begin

section \<open>Outbound metrics transport (net/http/otelhttp/metrics.go)\<close>

subsection \<open>Values of the Go runtime and of the standard library\<close>

text \<open>
  A Go \<open>error\<close> value is \<open>error option\<close>: \<open>None\<close> is \<open>nil\<close>. The switch in
  \<open>tracker.Read\<close> compares the error with \<open>io.EOF\<close> by identity, so \<open>EOF\<close> is a
  constructor of its own and every other error value is an \<open>OtherError\<close>.
\<close>

datatype error = EOF | OtherError string

datatype panic = NilPointerDereference

type_synonym bytes = "8 word list"

text \<open>
  The dynamic type of the body the base transport returns: its \<open>Read\<close> and \<open>Close\<close>
  methods over the state \<open>'s\<close> of the body object, and its \<open>Write\<close> method when the
  type has one (the type assertion \<open>body.(io.Writer)\<close> succeeds exactly then). A read
  gives the buffer as it has filled it, the byte count and the error.

  \<open>tracker.Read\<close> calls \<open>end()\<close> or not by what the body's \<open>Read\<close> has returned, so
  the body's \<open>Read\<close> runs first of necessity. In \<open>tracker.Close\<close> nothing but the order
  of the two statements decides which of \<open>end()\<close> and the body's \<open>Close\<close> runs first.
  So that the order shows, the body's \<open>Close\<close> is given the world \<open>'w\<close> as it is when
  it is called, to look at: what it returns and does to the body may depend on whether
  the sample is there.
\<close>

type_synonym 's write_fn = "'s \<Rightarrow> bytes \<Rightarrow> (nat \<times> error option) \<times> 's"

record ('s, 'w) body_type =
  Read_m :: "'s \<Rightarrow> bytes \<Rightarrow> (bytes \<times> nat \<times> error option) \<times> 's"
  Close_m :: "'s \<Rightarrow> 'w \<Rightarrow> error option \<times> 's"
  Write_m :: "'s write_fn option"

text \<open>
  An \<open>io.ReadCloser\<close> interface value as the caller of \<open>RoundTrip\<close> can hold it: the
  body of the base transport, the pointer to the tracker of the call, or the anonymous
  struct of \<open>wrappedBodyIO\<close>, which embeds an \<open>io.ReadCloser\<close> and an \<open>io.Writer\<close>.
  The tracker and the body object are in the state of the call (\<open>call\<close> below): the
  values here are references, so the writer of the struct and the \<open>body\<close> field of the
  tracker are one object.
\<close>

datatype ('s, 'w) ReadCloser =
    Original "('s, 'w) body_type"
  | Tracker
  | ReadCloserWriter "('s, 'w) ReadCloser" "'s write_fn"

text \<open>The fields of \<open>http.Response\<close> the transport reads or writes.\<close>

record 'b Response =
  StatusCode :: int
  Body :: "'b option"

definition StatusInternalServerError :: int where
  "StatusInternalServerError = 500"

subsection \<open>The clock and the metrics SDK\<close>

text \<open>
  \<open>clock w k\<close> is what the \<open>k\<close>-th reading of the wall clock returns, in nanoseconds;
  \<open>ticks\<close> counts the readings made so far. \<open>recorded\<close> is the list of the samples the
  instruments of the metrics SDK have received, oldest first.
\<close>

record ('ctx, 'kv, 'rec) sample =
  instrument :: 'rec
  sample_ctx :: 'ctx
  sample_value :: real
  sample_labels :: "'kv list"

record ('ctx, 'kv, 'rec) world =
  clock :: "nat \<Rightarrow> int"
  ticks :: nat
  recorded :: "('ctx, 'kv, 'rec) sample list"

definition time_Now :: "('ctx, 'kv, 'rec) world \<Rightarrow> int \<times> ('ctx, 'kv, 'rec) world" where
  "time_Now w = (clock w (ticks w), w\<lparr>ticks := Suc (ticks w)\<rparr>)"

text \<open>
  \<open>time.Since(start)\<close> is \<open>time.Now().Sub(start)\<close>, an \<open>int64\<close> count of nanoseconds
  that saturates at the ends of the range.
\<close>

definition Duration_of :: "int \<Rightarrow> int" where
  "Duration_of d = max (- (2 ^ 63)) (min (2 ^ 63 - 1) d)"

definition time_Since :: "int \<Rightarrow> ('ctx, 'kv, 'rec) world \<Rightarrow> int \<times> ('ctx, 'kv, 'rec) world" where
  "time_Since t w = (case time_Now w of (now, w') \<Rightarrow> (Duration_of (now - t), w'))"

definition Millisecond :: int where
  "Millisecond = 1000000"

text \<open>
  \<open>Float64ValueRecorder.Record\<close> of the metrics SDK: the instrument receives one
  sample.
\<close>

definition Record :: "'rec \<Rightarrow> 'ctx \<Rightarrow> real \<Rightarrow> 'kv list \<Rightarrow> ('ctx, 'kv, 'rec) world \<Rightarrow> ('ctx, 'kv, 'rec) world" where
  "Record r c v ls w =
     w\<lparr>recorded := recorded w @ [\<lparr>instrument = r, sample_ctx = c, sample_value = v, sample_labels = ls\<rparr>]\<rparr>"

subsection \<open>The tracker\<close>

text \<open>
  The struct \<open>tracker\<close>. \<open>endOnce\<close> is the flag of the \<open>sync.Once\<close>: set when its
  function has run. \<open>body\<close> is \<open>None\<close> for \<open>nil\<close>.
\<close>

record ('ctx, 'kv, 'rec, 's) tracker =
  ctx :: 'ctx
  start :: int
  body :: "('s, ('ctx, 'kv, 'rec) world) body_type option"
  endOnce :: bool
  labels :: "'kv list"
  clientDurationRecorder :: 'rec

text \<open>
  The state of one outbound call: the tracker \<open>RoundTrip\<close> allocates, the state of the
  body object of the response (when there is one) and the world.
\<close>

record ('ctx, 'kv, 'rec, 's) call =
  trk :: "('ctx, 'kv, 'rec, 's) tracker"
  bobj :: "'s option"
  env :: "('ctx, 'kv, 'rec) world"

text \<open>
  \<open>tracker.end\<close>: \<open>endOnce.Do\<close> runs the function when the flag is not set, and sets
  it. The latency is the quotient of two \<open>float64\<close> values; the model takes the exact
  quotient.
\<close>

definition tracker_end :: "('ctx, 'kv, 'rec, 's) call \<Rightarrow> ('ctx, 'kv, 'rec, 's) call" where
  "tracker_end c =
     (if endOnce (trk c) then c
      else (case time_Since (start (trk c)) (env c) of (d, w1) \<Rightarrow>
              let latencyMs = real_of_int d / real_of_int Millisecond;
                  w2 = Record (clientDurationRecorder (trk c)) (ctx (trk c)) latencyMs
                         (labels (trk c)) w1
              in c\<lparr>trk := (trk c)\<lparr>endOnce := True\<rparr>, env := w2\<rparr>))"

text \<open>
  \<open>tracker.Read\<close>. A \<open>nil\<close> body panics at the method call; \<open>RoundTrip\<close> hands out
  the tracker only with a body.
\<close>

definition tracker_Read ::
  "('ctx, 'kv, 'rec, 's) call \<Rightarrow> bytes \<Rightarrow> panic + ((bytes \<times> nat \<times> error option) \<times> ('ctx, 'kv, 'rec, 's) call)" where
  "tracker_Read c b =
     (case (body (trk c), bobj c) of
        (Some m, Some s) \<Rightarrow>
          (case Read_m m s b of ((b', n, err), s') \<Rightarrow>
             let c1 = c\<lparr>bobj := Some s'\<rparr> in
             (case err of
                None \<Rightarrow> Inr ((b', n, None), c1)
              | Some e \<Rightarrow>
                  let c2 = (if e = EOF then tracker_end c1 else c1)
                  in Inr ((b', n, err), c2)))
      | _ \<Rightarrow> Inl NilPointerDereference)"

text \<open>
  \<open>tracker.Close\<close>: \<open>end()\<close>, then the \<open>Close\<close> of the body, which finds the world
  as \<open>end()\<close> has left it.
\<close>

definition tracker_Close ::
  "('ctx, 'kv, 'rec, 's) call \<Rightarrow> panic + (error option \<times> ('ctx, 'kv, 'rec, 's) call)" where
  "tracker_Close c =
     (let c1 = tracker_end c in
      case (body (trk c1), bobj c1) of
        (Some m, Some s) \<Rightarrow>
          (case Close_m m s (env c1) of (err, s') \<Rightarrow> Inr (err, c1\<lparr>bobj := Some s'\<rparr>))
      | _ \<Rightarrow> Inl NilPointerDereference)"

subsection \<open>Wrapping the body\<close>

text \<open>\<open>wrappedBodyIO\<close>.\<close>

definition wrappedBodyIO :: "('s, 'w) ReadCloser \<Rightarrow> ('s, 'w) body_type \<Rightarrow> ('s, 'w) ReadCloser" where
  "wrappedBodyIO wrapper bd =
     (case Write_m bd of
        Some wr \<Rightarrow> ReadCloserWriter wrapper wr
      | None \<Rightarrow> wrapper)"

text \<open>
  Method sets and method calls on an interface value. The struct of \<open>wrappedBodyIO\<close>
  promotes \<open>Read\<close> and \<open>Close\<close> from its embedded \<open>io.ReadCloser\<close> and \<open>Write\<close>
  from its embedded \<open>io.Writer\<close>; the tracker has the methods \<open>end\<close>, \<open>Read\<close> and
  \<open>Close\<close>.
\<close>

fun is_Writer :: "('s, 'w) ReadCloser \<Rightarrow> bool" where
  "is_Writer (Original m) = (Write_m m \<noteq> None)"
| "is_Writer Tracker = False"
| "is_Writer (ReadCloserWriter rc wr) = True"

fun Read ::
  "('s, ('ctx, 'kv, 'rec) world) ReadCloser \<Rightarrow> ('ctx, 'kv, 'rec, 's) call \<Rightarrow> bytes \<Rightarrow> panic + ((bytes \<times> nat \<times> error option) \<times> ('ctx, 'kv, 'rec, 's) call)" where
  "Read (Original m) c b =
     (case bobj c of
        Some s \<Rightarrow> (case Read_m m s b of (r, s') \<Rightarrow> Inr (r, c\<lparr>bobj := Some s'\<rparr>))
      | None \<Rightarrow> Inl NilPointerDereference)"
| "Read Tracker c b = tracker_Read c b"
| "Read (ReadCloserWriter rc wr) c b = Read rc c b"

fun Close ::
  "('s, ('ctx, 'kv, 'rec) world) ReadCloser \<Rightarrow> ('ctx, 'kv, 'rec, 's) call \<Rightarrow> panic + (error option \<times> ('ctx, 'kv, 'rec, 's) call)" where
  "Close (Original m) c =
     (case bobj c of
        Some s \<Rightarrow> (case Close_m m s (env c) of (r, s') \<Rightarrow> Inr (r, c\<lparr>bobj := Some s'\<rparr>))
      | None \<Rightarrow> Inl NilPointerDereference)"
| "Close Tracker c = tracker_Close c"
| "Close (ReadCloserWriter rc wr) c = Close rc c"

text \<open>
  \<open>Write\<close> on an interface value that has the method; \<open>None\<close> when its dynamic type
  has no \<open>Write\<close>, so that the call is not there to make.
\<close>

fun Write ::
  "('s, ('ctx, 'kv, 'rec) world) ReadCloser \<Rightarrow> ('ctx, 'kv, 'rec, 's) call \<Rightarrow> bytes \<Rightarrow> (panic + ((nat \<times> error option) \<times> ('ctx, 'kv, 'rec, 's) call)) option" where
  "Write (Original m) c b =
     (case Write_m m of
        None \<Rightarrow> None
      | Some wr \<Rightarrow>
          Some (case bobj c of
                  Some s \<Rightarrow> (case wr s b of (r, s') \<Rightarrow> Inr (r, c\<lparr>bobj := Some s'\<rparr>))
                | None \<Rightarrow> Inl NilPointerDereference))"
| "Write Tracker c b = None"
| "Write (ReadCloserWriter rc wr) c b =
     Some (case bobj c of
             Some s \<Rightarrow> (case wr s b of (r, s') \<Rightarrow> Inr (r, c\<lparr>bobj := Some s'\<rparr>))
           | None \<Rightarrow> Inl NilPointerDereference)"

subsection \<open>The instrumented transport\<close>

text \<open>
  The functions of the \<open>semconv\<close> package and \<open>req.Context()\<close>, which are not code of
  this repository, are parameters.
\<close>

record ('req, 'ctx, 'kv) semconv =
  HTTPClientAttributesFromHTTPRequest :: "'req \<Rightarrow> 'kv list"
  HTTPAttributesFromHTTPStatusCode :: "int \<Rightarrow> 'kv list"
  Context :: "'req \<Rightarrow> 'ctx"

text \<open>
  The struct \<open>instrumentedTransport\<close>. \<open>base\<close> is the \<open>RoundTrip\<close> of the wrapped
  transport: it gives the response, whose body is an object (its type and its state),
  and the error.
\<close>

type_synonym ('req, 's, 'w) base_RoundTrip =
  "'req \<Rightarrow> (('s, 'w) body_type \<times> 's) Response option \<times> error option"

record ('req, 'rec, 's, 'w, 'mt) instrumentedTransport =
  meter :: 'mt
  base :: "('req, 's, 'w) base_RoundTrip"
  transport_recorder :: 'rec

text \<open>
  What \<open>RoundTrip\<close> returns: the response with its body as an interface value, the
  error, and the state of the call.
\<close>

definition as_value :: "(('s, 'w) body_type \<times> 's) Response \<Rightarrow> ('s, 'w) ReadCloser Response" where
  "as_value r = \<lparr>StatusCode = StatusCode r, Body = map_option (\<lambda>(m, s). Original m) (Body r)\<rparr>"

definition RoundTrip ::
  "('req, 'ctx, 'kv) semconv
     \<Rightarrow> ('req, 'rec, 's, ('ctx, 'kv, 'rec) world, 'mt) instrumentedTransport \<Rightarrow> 'req
     \<Rightarrow> ('ctx, 'kv, 'rec) world
     \<Rightarrow> panic + ((('s, ('ctx, 'kv, 'rec) world) ReadCloser Response option \<times> error option)
                  \<times> ('ctx, 'kv, 'rec, 's) call)" where
  "RoundTrip sc tr req w =
     (let labels0 = HTTPClientAttributesFromHTTPRequest sc req;
          ctx0 = Context sc req
      in case time_Now w of (now, w1) \<Rightarrow>
         let tracker = \<lparr>ctx = ctx0, start = now, body = None, endOnce = False,
                        labels = [], clientDurationRecorder = transport_recorder tr\<rparr>
         in case base tr req of (resp, err) \<Rightarrow>
            (case err of
               Some e \<Rightarrow>
                 let tracker1 = tracker\<lparr>labels :=
                       labels0 @ HTTPAttributesFromHTTPStatusCode sc StatusInternalServerError\<rparr>;
                     c = tracker_end \<lparr>trk = tracker1,
                           bobj = (case resp of None \<Rightarrow> None | Some r \<Rightarrow> map_option snd (Body r)),
                           env = w1\<rparr>
                 in Inr ((map_option as_value resp, err), c)
             | None \<Rightarrow>
                 (case resp of
                    None \<Rightarrow> Inl NilPointerDereference
                  | Some r \<Rightarrow>
                      let tracker1 = tracker\<lparr>labels :=
                            labels0 @ HTTPAttributesFromHTTPStatusCode sc (StatusCode r)\<rparr>
                      in (case Body r of
                            None \<Rightarrow>
                              let c = tracker_end \<lparr>trk = tracker1, bobj = None, env = w1\<rparr>
                              in Inr ((Some (as_value r), None), c)
                          | Some (m, s) \<Rightarrow>
                              let tracker2 = tracker1\<lparr>body := Some m\<rparr>;
                                  r' = \<lparr>StatusCode = StatusCode r,
                                        Body = Some (wrappedBodyIO Tracker m)\<rparr>
                              in Inr ((Some r', None),
                                      \<lparr>trk = tracker2, bobj = Some s, env = w1\<rparr>)))))"

text \<open>
  The caller's use of the returned body: a sequence of \<open>Read\<close> and \<open>Close\<close> calls,
  each with what it returned.
\<close>

datatype op = OpRead bytes | OpClose

datatype op_result = ReadResult bytes nat "error option" | CloseResult "error option"

fun run_ops ::
  "('s, ('ctx, 'kv, 'rec) world) ReadCloser \<Rightarrow> ('ctx, 'kv, 'rec, 's) call \<Rightarrow> op list \<Rightarrow> panic + (op_result list \<times> ('ctx, 'kv, 'rec, 's) call)" where
  "run_ops rc c [] = Inr ([], c)"
| "run_ops rc c (OpRead b # ops) =
     (case Read rc c b of
        Inl p \<Rightarrow> Inl p
      | Inr ((b', n, err), c') \<Rightarrow>
          (case run_ops rc c' ops of
             Inl p \<Rightarrow> Inl p
           | Inr (rs, c'') \<Rightarrow> Inr (ReadResult b' n err # rs, c'')))"
| "run_ops rc c (OpClose # ops) =
     (case Close rc c of
        Inl p \<Rightarrow> Inl p
      | Inr (err, c') \<Rightarrow>
          (case run_ops rc c' ops of
             Inl p \<Rightarrow> Inl p
           | Inr (rs, c'') \<Rightarrow> Inr (CloseResult err # rs, c'')))"

fun finalizes :: "op_result \<Rightarrow> bool" where
  "finalizes (ReadResult b n err) = (err = Some EOF)"
| "finalizes (CloseResult err) = True"

section \<open>Inbound span filter (github.com/emicklei/go-restful/restful.go)\<close>

definition tracerName :: string where
  "tracerName = ''go.opentelemetry.io/contrib/instrumentation/github.com/emicklei/go-restful''"

definition tracerVersion :: string where
  "tracerVersion = ''1.0''"

subsection \<open>Values of the collaborators\<close>

datatype SpanKind =
    SpanKindUnspecified
  | SpanKindInternal
  | SpanKindServer
  | SpanKindClient
  | SpanKindProducer
  | SpanKindConsumer

datatype 'kv StartOption = WithAttributes "'kv list" | WithSpanKind SpanKind

type_synonym Header = "string \<rightharpoonup> string list"

type_synonym Code = "32 word"

text \<open>
  The fields of \<open>http.Request\<close> and of \<open>restful.Request\<close> the filter reads or
  writes; \<open>SelectedRoutePath\<close> is what the method of that name returns.
\<close>

record 'ctx http_Request =
  req_ctx :: 'ctx
  Header :: Header

record 'ctx restful_Request =
  Request :: "'ctx http_Request"
  SelectedRoutePath :: string

text \<open>
  Modelled from the spec: the struct \<open>Config\<close> and the type \<open>Option\<close>, which the
  package declares in a file that is not among the sources. A field that is not set is
  \<open>nil\<close>, here \<open>None\<close>; an option is a function that changes the configuration.
\<close>

record ('tr, 'pr) Config =
  Tracer :: "'tr option"
  Propagators :: "'pr option"

type_synonym ('tr, 'pr) Option = "('tr, 'pr) Config \<Rightarrow> ('tr, 'pr) Config"

text \<open>
  The registry of the process-wide defaults (package \<open>otelglobal\<close>): the \<open>Tracer\<close>
  method of the registered trace provider, given a name and an instrumentation
  version, and the registered propagators.
\<close>

record ('tr, 'pr) globals =
  TraceProvider :: "string \<Rightarrow> string \<Rightarrow> 'tr"
  global_Propagators :: 'pr

text \<open>
  The functions of the packages \<open>standard\<close>, \<open>otelpropagation\<close> and \<open>oteltrace\<close>
  and the \<open>StatusCode\<close> method of \<open>restful.Response\<close>, which are not code of this
  repository, are parameters. \<open>Tracer_Start\<close> gives the context that carries the span,
  and the span.
\<close>

record ('ctx, 'kv, 'tr, 'pr, 'sp, 'resp) collaborators =
  ExtractHTTP :: "'ctx \<Rightarrow> 'pr option \<Rightarrow> Header \<Rightarrow> 'ctx"
  NetAttributesFromHTTPRequest :: "string \<Rightarrow> 'ctx http_Request \<Rightarrow> 'kv list"
  EndUserAttributesFromHTTPRequest :: "'ctx http_Request \<Rightarrow> 'kv list"
  HTTPServerAttributesFromHTTPRequest :: "string \<Rightarrow> string \<Rightarrow> 'ctx http_Request \<Rightarrow> 'kv list"
  AttributesFromHTTPStatusCode :: "int \<Rightarrow> 'kv list"
  SpanStatusFromHTTPStatusCode :: "int \<Rightarrow> Code \<times> string"
  Tracer_Start :: "'tr \<Rightarrow> 'ctx \<Rightarrow> string \<Rightarrow> 'kv StartOption list \<Rightarrow> 'ctx \<times> 'sp"
  Response_StatusCode :: "'resp \<Rightarrow> int"

text \<open>
  The calls the filter makes on the tracer, on the span and on the chain, in the order
  it makes them.
\<close>

datatype ('ctx, 'kv, 'tr, 'sp, 'resp) event =
    TracerStart 'tr 'ctx string "'kv StartOption list"
  | ProcessFilter "'ctx restful_Request" 'resp
  | SetAttributes 'sp "'kv list"
  | SetStatus 'sp Code string
  | SpanEnd 'sp

text \<open>
  How a call ends: it returns, with the response as it is then, or it panics with a
  value. The rest of the chain is a function of the request and the response.
\<close>

datatype ('pv, 'resp) outcome = Returned 'resp | Panicked 'pv 'resp

type_synonym ('ctx, 'pv, 'resp) FilterChain =
  "'ctx restful_Request \<Rightarrow> 'resp \<Rightarrow> ('pv, 'resp) outcome"

type_synonym ('ctx, 'kv, 'tr, 'pr, 'sp, 'resp, 'pv) FilterFunction =
  "('tr, 'pr) globals \<Rightarrow> 'ctx restful_Request \<Rightarrow> 'resp \<Rightarrow> ('ctx, 'pv, 'resp) FilterChain
     \<Rightarrow> ('ctx, 'kv, 'tr, 'sp, 'resp) event list \<times> 'ctx restful_Request \<times> (panic + 'pv, 'resp) outcome"

subsection \<open>The filter\<close>

text \<open>
  The function literal \<open>OTelFilter\<close> returns, over the configuration it captures. Its
  first argument is the registry as it is when the filter runs. The deferred
  \<open>span.End()\<close> runs when the function returns and when the chain panics. The filter
  gives the calls it has made, the request as it has changed it, and how it ends.
\<close>

definition filter_func ::
  "('ctx, 'kv, 'tr, 'pr, 'sp, 'resp) collaborators \<Rightarrow> ('tr, 'pr) Config \<Rightarrow> string
     \<Rightarrow> ('ctx, 'kv, 'tr, 'pr, 'sp, 'resp, 'pv) FilterFunction" where
  "filter_func api cfg service g req resp chain =
     (let r = Request req;
          ctx1 = ExtractHTTP api (req_ctx r) (Propagators cfg) (Header r);
          route = SelectedRoutePath req;
          spanName = route;
          opts = [WithAttributes (NetAttributesFromHTTPRequest api ''tcp'' r),
                  WithAttributes (EndUserAttributesFromHTTPRequest api r),
                  WithAttributes (HTTPServerAttributesFromHTTPRequest api service route r),
                  WithSpanKind SpanKindServer]
      in case Tracer cfg of
           None \<Rightarrow> ([], req, Panicked (Inl NilPointerDereference) resp)
         | Some t \<Rightarrow>
             (case Tracer_Start api t ctx1 spanName opts of (ctx2, sp) \<Rightarrow>
                let req' = req\<lparr>Request := (Request req)\<lparr>req_ctx := ctx2\<rparr>\<rparr>;
                    evs = [TracerStart t ctx1 spanName opts, ProcessFilter req' resp]
                in (case chain req' resp of
                      Returned resp' \<Rightarrow>
                        let attrs = AttributesFromHTTPStatusCode api (Response_StatusCode api resp')
                        in (case SpanStatusFromHTTPStatusCode api (Response_StatusCode api resp') of
                              (spanStatus, spanMessage) \<Rightarrow>
                                (evs @ [SetAttributes sp attrs,
                                        SetStatus sp spanStatus spanMessage,
                                        SpanEnd sp],
                                 req', Returned resp'))
                    | Panicked v resp' \<Rightarrow>
                        (evs @ [SpanEnd sp], req', Panicked (Inr v) resp'))))"

text \<open>\<open>OTelFilter\<close>, given the registry as it is when the filter is built.\<close>

definition OTelFilter ::
  "('ctx, 'kv, 'tr, 'pr, 'sp, 'resp) collaborators \<Rightarrow> ('tr, 'pr) globals \<Rightarrow> string
     \<Rightarrow> ('tr, 'pr) Option list \<Rightarrow> ('ctx, 'kv, 'tr, 'pr, 'sp, 'resp, 'pv) FilterFunction" where
  "OTelFilter api g service opts =
     (let cfg0 = foldl (\<lambda>cfg opt. opt cfg) \<lparr>Tracer = None, Propagators = None\<rparr> opts;
          cfg1 = (if Tracer cfg0 = None
                  then cfg0\<lparr>Tracer := Some (TraceProvider g tracerName tracerVersion)\<rparr>
                  else cfg0);
          cfg2 = (if Propagators cfg1 = None
                  then cfg1\<lparr>Propagators := Some (global_Propagators g)\<rparr>
                  else cfg1)
      in filter_func api cfg2 service)"

text \<open>Counting and placing the calls of a trace.\<close>

fun is_start :: "('ctx, 'kv, 'tr, 'sp, 'resp) event \<Rightarrow> bool" where
  "is_start (TracerStart t c n os) = True"
| "is_start e = False"

fun is_end :: "('ctx, 'kv, 'tr, 'sp, 'resp) event \<Rightarrow> bool" where
  "is_end (SpanEnd s) = True"
| "is_end e = False"

fun is_chain :: "('ctx, 'kv, 'tr, 'sp, 'resp) event \<Rightarrow> bool" where
  "is_chain (ProcessFilter rq rs) = True"
| "is_chain e = False"

section \<open>Definitions for the proofs\<close>

text \<open>
  The invariant of the one-shot guard: since the call began with the samples \<open>old\<close>,
  the recorder has received one more exactly when the flag is set.
\<close>

definition counted :: "('ctx, 'kv, 'rec) sample list \<Rightarrow> ('ctx, 'kv, 'rec, 's) call \<Rightarrow> bool" where
  "counted old c =
     (\<exists>new. recorded (env c) = old @ new \<and> length new = (if endOnce (trk c) then 1 else 0))"

subsection \<open>A concrete transport\<close>

text \<open>
  A base transport with four destinations: one that fails, one that answers without a
  body, one whose body breaks off with an error that is not end-of-stream, and one
  whose body (which can also be written to) gives three bytes in two reads. A body
  plays the script that is its state and answers end-of-stream when the script is
  over; its \<open>Close\<close> drops the rest of the script, and returns an error when it finds
  that no sample has been recorded. The clock advances five milliseconds between two
  readings.
\<close>

datatype ex_label = HTTPMethod string | HTTPUrl string | HTTPStatusCode int

type_synonym read_result = "bytes \<times> nat \<times> error option"

definition ex_semconv :: "(string, nat, ex_label) semconv" where
  "ex_semconv = \<lparr>HTTPClientAttributesFromHTTPRequest = (\<lambda>rq. [HTTPMethod ''GET'', HTTPUrl rq]),
                 HTTPAttributesFromHTTPStatusCode = (\<lambda>code. [HTTPStatusCode code]),
                 Context = (\<lambda>rq. 7)\<rparr>"

definition ex_Read :: "read_result list \<Rightarrow> bytes \<Rightarrow> read_result \<times> read_result list" where
  "ex_Read s b = (case s of [] \<Rightarrow> ((b, 0, Some EOF), []) | r # rs \<Rightarrow> (r, rs))"

definition ex_body :: "bool \<Rightarrow> (read_result list, (nat, ex_label, string) world) body_type" where
  "ex_body w = \<lparr>Read_m = ex_Read,
               Close_m = (\<lambda>s v. (if recorded v = [] then Some (OtherError ''not measured'') else None, [])),
               Write_m = (if w then Some (\<lambda>s b. ((length b, None), s)) else None)\<rparr>"

definition ex_base :: "(string, read_result list, (nat, ex_label, string) world) base_RoundTrip" where
  "ex_base rq =
     (if rq = ''/down'' then (None, Some (OtherError ''connection refused''))
      else if rq = ''/empty'' then (Some \<lparr>StatusCode = 204, Body = None\<rparr>, None)
      else if rq = ''/reset'' then
        (Some \<lparr>StatusCode = 200,
               Body = Some (ex_body False,
                            [([1, 2], 2, None), ([3, 0], 1, Some (OtherError ''reset''))])\<rparr>,
         None)
      else (Some \<lparr>StatusCode = 200,
                  Body = Some (ex_body True, [([1, 2], 2, None), ([3, 0], 1, None)])\<rparr>,
            None))"

definition ex_transport ::
  "(string, string, read_result list, (nat, ex_label, string) world, unit) instrumentedTransport" where
  "ex_transport = \<lparr>meter = (), base = ex_base, transport_recorder = ''http.client.duration''\<rparr>"

definition ex_world :: "(nat, ex_label, string) world" where
  "ex_world = \<lparr>clock = (\<lambda>k. 5000000 * int k), ticks = 0, recorded = []\<rparr>"

text \<open>
  The state of a call to this transport when \<open>RoundTrip\<close> has returned a body that is
  still to be read, and the sample the call records.
\<close>

definition ex_call ::
  "string \<Rightarrow> bool \<Rightarrow> read_result list \<Rightarrow> (nat, ex_label, string, read_result list) call" where
  "ex_call url w script =
     \<lparr>trk = \<lparr>ctx = 7, start = 0, body = Some (ex_body w), endOnce = False,
              labels = [HTTPMethod ''GET'', HTTPUrl url, HTTPStatusCode 200],
              clientDurationRecorder = ''http.client.duration''\<rparr>,
      bobj = Some script,
      env = \<lparr>clock = (\<lambda>k. 5000000 * int k), ticks = 1, recorded = []\<rparr>\<rparr>"

definition ex_sample :: "string \<Rightarrow> int \<Rightarrow> (nat, ex_label, string) sample" where
  "ex_sample url code =
     \<lparr>instrument = ''http.client.duration'', sample_ctx = 7, sample_value = 5,
      sample_labels = [HTTPMethod ''GET'', HTTPUrl url, HTTPStatusCode code]\<rparr>"

definition ex_done ::
  "string \<Rightarrow> bool \<Rightarrow> read_result list \<Rightarrow> (nat, ex_label, string, read_result list) call" where
  "ex_done url w script =
     (ex_call url w script)
       \<lparr>trk := (trk (ex_call url w script))\<lparr>endOnce := True\<rparr>,
        env := \<lparr>clock = (\<lambda>k. 5000000 * int k), ticks = 2, recorded = [ex_sample url 200]\<rparr>\<rparr>"

subsection \<open>A concrete filter\<close>

text \<open>
  Collaborators for a run of the filter: a context is the list of what has been put in
  it, extraction puts the name of the propagators in it and the tracer puts the span in
  it; the status code of a response is the response. There are two states of the
  registry, one for when the filter is built and one for when it runs. One handler
  answers 404 when its context carries a span and panics otherwise; the other panics.
\<close>

datatype ex_attr = StrAttr string string | IntAttr string int

definition ex_api :: "(string list, ex_attr, string, string, nat, int) collaborators" where
  "ex_api =
     \<lparr>ExtractHTTP = (\<lambda>c p h. (case p of None \<Rightarrow> c | Some pr \<Rightarrow> pr # c)),
      NetAttributesFromHTTPRequest = (\<lambda>network r. [StrAttr ''net.transport'' network]),
      EndUserAttributesFromHTTPRequest = (\<lambda>r. []),
      HTTPServerAttributesFromHTTPRequest =
        (\<lambda>server route r. [StrAttr ''http.server_name'' server, StrAttr ''http.route'' route]),
      AttributesFromHTTPStatusCode = (\<lambda>code. [IntAttr ''http.status_code'' code]),
      SpanStatusFromHTTPStatusCode = (\<lambda>code. if code < 400 then (0, []) else (2, ''error'')),
      Tracer_Start = (\<lambda>t c n os. (''span'' # c, 1)),
      Response_StatusCode = (\<lambda>r. r)\<rparr>"

definition ex_globals :: "(string, string) globals" where
  "ex_globals = \<lparr>TraceProvider = (\<lambda>n v. ''global''), global_Propagators = ''tracecontext''\<rparr>"

definition ex_later_globals :: "(string, string) globals" where
  "ex_later_globals = \<lparr>TraceProvider = (\<lambda>n v. ''replaced''), global_Propagators = ''b3''\<rparr>"

definition ex_WithTracer :: "string \<Rightarrow> (string, string) Option" where
  "ex_WithTracer t cfg = cfg\<lparr>Tracer := Some t\<rparr>"

definition ex_request :: "string list restful_Request" where
  "ex_request = \<lparr>Request = \<lparr>req_ctx = [], Header = Map.empty\<rparr>, SelectedRoutePath = ''/items/{id}''\<rparr>"

definition ex_handler :: "(string list, string, int) FilterChain" where
  "ex_handler rq rs = (if req_ctx (Request rq) = [] then Panicked ''no span'' 500 else Returned 404)"

definition ex_panicking :: "(string list, string, int) FilterChain" where
  "ex_panicking rq rs = Panicked ''boom'' 500"

definition ex_start_options :: "ex_attr StartOption list" where
  "ex_start_options =
     [WithAttributes [StrAttr ''net.transport'' ''tcp''],
      WithAttributes [],
      WithAttributes [StrAttr ''http.server_name'' ''svc'', StrAttr ''http.route'' ''/items/{id}''],
      WithSpanKind SpanKindServer]"

definition ex_traced_request :: "string list restful_Request" where
  "ex_traced_request =
     \<lparr>Request = \<lparr>req_ctx = [''span'', ''tracecontext''], Header = Map.empty\<rparr>,
      SelectedRoutePath = ''/items/{id}''\<rparr>"

section \<open>Properties of the metrics transport\<close>

subsection \<open>The one-shot guard\<close>


lemma tracker_end_idem: "tracker_end (tracker_end c) = tracker_end c"
  by (simp add: tracker_end_def Let_def split: prod.splits)

lemma tracker_end_endOnce: "endOnce (trk (tracker_end c))"
  by (simp add: tracker_end_def Let_def split: prod.splits)

lemma tracker_end_done: "endOnce (trk c) \<Longrightarrow> tracker_end c = c"
  by (simp add: tracker_end_def)

lemma tracker_end_frame:
  "body (trk (tracker_end c)) = body (trk c) \<and> bobj (tracker_end c) = bobj c
   \<and> labels (trk (tracker_end c)) = labels (trk c)
   \<and> ctx (trk (tracker_end c)) = ctx (trk c)
   \<and> start (trk (tracker_end c)) = start (trk c)
   \<and> clientDurationRecorder (trk (tracker_end c)) = clientDurationRecorder (trk c)"
  by (simp add: tracker_end_def Let_def split: prod.splits)

lemma tracker_end_recorded:
  "\<not> endOnce (trk c) \<Longrightarrow>
   recorded (env (tracker_end c)) = recorded (env c) @
     [\<lparr>instrument = clientDurationRecorder (trk c), sample_ctx = ctx (trk c),
       sample_value = real_of_int (Duration_of (clock (env c) (ticks (env c)) - start (trk c))) / 1000000,
       sample_labels = labels (trk c)\<rparr>]"
  by (simp add: tracker_end_def Let_def time_Since_def time_Now_def Record_def Millisecond_def split: prod.splits)

lemma counted_end: "counted old c \<Longrightarrow> counted old (tracker_end c)"
proof (cases "endOnce (trk c)")
  case True
  assume "counted old c"
  with True show ?thesis by (simp add: tracker_end_done)
next
  case False
  assume "counted old c"
  with False have "recorded (env c) = old" by (auto simp: counted_def)
  with False show ?thesis
    using tracker_end_recorded[of c] tracker_end_endOnce[of c] by (simp add: counted_def)
qed

lemma counted_bobj: "counted old (c\<lparr>bobj := x\<rparr>) = counted old c"
  by (simp add: counted_def)

lemma tracker_Read_step:
  assumes "body (trk c) = Some m" and "bobj c = Some s" and "counted old c"
  shows "\<exists>b' n err c'. tracker_Read c b = Inr ((b', n, err), c') \<and> body (trk c') = Some m
           \<and> bobj c' \<noteq> None \<and> counted old c'
           \<and> (endOnce (trk c') \<longleftrightarrow> endOnce (trk c) \<or> err = Some EOF)"
proof -
  obtain b' n err s' where r: "Read_m m s b = ((b', n, err), s')"
    by (metis prod_cases3 surj_pair)
  let ?c1 = "c\<lparr>bobj := Some s'\<rparr>"
  let ?c' = "if err = Some EOF then tracker_end ?c1 else ?c1"
  have "tracker_Read c b = Inr ((b', n, err), ?c')"
    using assms(1,2) r by (simp add: tracker_Read_def Let_def split: option.splits)
  moreover have "body (trk ?c') = Some m" "bobj ?c' \<noteq> None"
    using assms(1) tracker_end_frame[of ?c1] by auto
  moreover have "counted old ?c'"
    using assms(3) counted_end[of old ?c1] by (simp add: counted_bobj)
  moreover have "endOnce (trk ?c') \<longleftrightarrow> endOnce (trk c) \<or> err = Some EOF"
    using tracker_end_endOnce[of ?c1] by simp
  ultimately show ?thesis by blast
qed

lemma tracker_Close_step:
  assumes "body (trk c) = Some m" and "bobj c = Some s" and "counted old c"
  shows "\<exists>err c'. tracker_Close c = Inr (err, c') \<and> body (trk c') = Some m
           \<and> bobj c' \<noteq> None \<and> counted old c' \<and> endOnce (trk c')"
proof -
  obtain err s' where r: "Close_m m s (env (tracker_end c)) = (err, s')"
    by (cases "Close_m m s (env (tracker_end c))")
  let ?c' = "(tracker_end c)\<lparr>bobj := Some s'\<rparr>"
  have "tracker_Close c = Inr (err, ?c')"
    using assms(1,2) r tracker_end_frame[of c] by (simp add: tracker_Close_def Let_def)
  moreover have "body (trk ?c') = Some m" "bobj ?c' \<noteq> None"
    using assms(1) tracker_end_frame[of c] by auto
  moreover have "counted old ?c'"
    using assms(3) counted_end[of old c] by (simp add: counted_bobj)
  moreover have "endOnce (trk ?c')"
    using tracker_end_endOnce[of c] by simp
  ultimately show ?thesis by blast
qed

lemma Read_wrapped: "rc = Tracker \<or> rc = ReadCloserWriter Tracker wr \<Longrightarrow> Read rc c b = tracker_Read c b"
  by auto

lemma Close_wrapped: "rc = Tracker \<or> rc = ReadCloserWriter Tracker wr \<Longrightarrow> Close rc c = tracker_Close c"
  by auto

lemma run_ops_wrapped:
  assumes "rc = Tracker \<or> rc = ReadCloserWriter Tracker wr"
  shows "body (trk c) = Some m \<Longrightarrow> bobj c \<noteq> None \<Longrightarrow> counted old c \<Longrightarrow>
         \<exists>rs c'. run_ops rc c ops = Inr (rs, c') \<and> length rs = length ops \<and> counted old c'
           \<and> (endOnce (trk c') \<longleftrightarrow> endOnce (trk c) \<or> (\<exists>x\<in>set rs. finalizes x))"
proof (induction ops arbitrary: c)
  case Nil
  then show ?case by simp
next
  case (Cons o1 ops)
  from Cons.prems(2) obtain s where s: "bobj c = Some s" by auto
  show ?case
  proof (cases o1)
    case (OpRead b)
    from tracker_Read_step[OF Cons.prems(1) s Cons.prems(3), of b]
    obtain b' n err c1 where
      st: "tracker_Read c b = Inr ((b', n, err), c1)" "body (trk c1) = Some m"
          "bobj c1 \<noteq> None" "counted old c1"
          "endOnce (trk c1) \<longleftrightarrow> endOnce (trk c) \<or> err = Some EOF"
      by blast
    from Cons.IH[OF st(2) st(3) st(4)] obtain rs c' where
      ih: "run_ops rc c1 ops = Inr (rs, c')" "length rs = length ops" "counted old c'"
          "endOnce (trk c') \<longleftrightarrow> endOnce (trk c1) \<or> (\<exists>x\<in>set rs. finalizes x)"
      by blast
    have "run_ops rc c (o1 # ops) = Inr (ReadResult b' n err # rs, c')"
      using OpRead st(1) ih(1) Read_wrapped[OF assms, of c b] by simp
    moreover have "endOnce (trk c') \<longleftrightarrow>
        endOnce (trk c) \<or> (\<exists>x\<in>set (ReadResult b' n err # rs). finalizes x)"
      using st(5) ih(4) by auto
    ultimately show ?thesis using ih(2,3) by simp
  next
    case OpClose
    from tracker_Close_step[OF Cons.prems(1) s Cons.prems(3)]
    obtain err c1 where
      st: "tracker_Close c = Inr (err, c1)" "body (trk c1) = Some m"
          "bobj c1 \<noteq> None" "counted old c1" "endOnce (trk c1)"
      by blast
    from Cons.IH[OF st(2) st(3) st(4)] obtain rs c' where
      ih: "run_ops rc c1 ops = Inr (rs, c')" "length rs = length ops" "counted old c'"
          "endOnce (trk c') \<longleftrightarrow> endOnce (trk c1) \<or> (\<exists>x\<in>set rs. finalizes x)"
      by blast
    have "run_ops rc c (o1 # ops) = Inr (CloseResult err # rs, c')"
      using OpClose st(1) ih(1) Close_wrapped[OF assms, of c] by simp
    moreover have "endOnce (trk c') \<longleftrightarrow>
        endOnce (trk c) \<or> (\<exists>x\<in>set (CloseResult err # rs). finalizes x)"
      using st(5) ih(4) by auto
    ultimately show ?thesis using ih(2,3) by simp
  qed
qed

lemma run_ops_Original:
  "bobj c \<noteq> None \<Longrightarrow>
   \<exists>rs c'. run_ops (Original m) c ops = Inr (rs, c') \<and> length rs = length ops
      \<and> trk c' = trk c \<and> env c' = env c \<and> bobj c' \<noteq> None"
proof (induction ops arbitrary: c)
  case Nil
  then show ?case by simp
next
  case (Cons o1 ops)
  from Cons.prems obtain s where s: "bobj c = Some s" by auto
  show ?case
  proof (cases o1)
    case (OpRead b)
    obtain b' n err s' where r: "Read_m m s b = ((b', n, err), s')"
      by (metis prod_cases3 surj_pair)
    let ?c1 = "c\<lparr>bobj := Some s'\<rparr>"
    have "bobj ?c1 \<noteq> None" by simp
    from Cons.IH[OF this] obtain rs c' where
      ih: "run_ops (Original m) ?c1 ops = Inr (rs, c')" "length rs = length ops"
          "trk c' = trk ?c1" "env c' = env ?c1" "bobj c' \<noteq> None"
      by blast
    then show ?thesis using OpRead s r by simp
  next
    case OpClose
    obtain err s' where r: "Close_m m s (env c) = (err, s')" by (cases "Close_m m s (env c)")
    let ?c1 = "c\<lparr>bobj := Some s'\<rparr>"
    have "bobj ?c1 \<noteq> None" by simp
    from Cons.IH[OF this] obtain rs c' where
      ih: "run_ops (Original m) ?c1 ops = Inr (rs, c')" "length rs = length ops"
          "trk c' = trk ?c1" "env c' = env ?c1" "bobj c' \<noteq> None"
      by blast
    then show ?thesis using OpClose s r by simp
  qed
qed


lemma RoundTrip_error_state:
  assumes "base tr req = (resp, Some e)"
  shows "\<exists>c. RoundTrip sc tr req w = Inr ((map_option as_value resp, Some e), c)
           \<and> endOnce (trk c)
           \<and> labels (trk c) = HTTPClientAttributesFromHTTPRequest sc req @ HTTPAttributesFromHTTPStatusCode sc 500
           \<and> bobj c = (case resp of None \<Rightarrow> None | Some r \<Rightarrow> map_option snd (Body r))
           \<and> recorded (env c) = recorded w @
                [\<lparr>instrument = transport_recorder tr, sample_ctx = Context sc req,
                  sample_value = real_of_int (Duration_of (clock w (Suc (ticks w)) - clock w (ticks w))) / 1000000,
                  sample_labels = HTTPClientAttributesFromHTTPRequest sc req @ HTTPAttributesFromHTTPStatusCode sc 500\<rparr>]"
  using assms
  by (simp add: RoundTrip_def Let_def time_Now_def tracker_end_def time_Since_def Record_def
      Millisecond_def StatusInternalServerError_def)

lemma RoundTrip_nil_body_state:
  assumes "base tr req = (Some r, None)" and "Body r = None"
  shows "\<exists>c. RoundTrip sc tr req w = Inr ((Some (as_value r), None), c)
           \<and> endOnce (trk c)
           \<and> labels (trk c) = HTTPClientAttributesFromHTTPRequest sc req @ HTTPAttributesFromHTTPStatusCode sc (StatusCode r)
           \<and> recorded (env c) = recorded w @
                [\<lparr>instrument = transport_recorder tr, sample_ctx = Context sc req,
                  sample_value = real_of_int (Duration_of (clock w (Suc (ticks w)) - clock w (ticks w))) / 1000000,
                  sample_labels = HTTPClientAttributesFromHTTPRequest sc req @ HTTPAttributesFromHTTPStatusCode sc (StatusCode r)\<rparr>]"
  using assms
  by (simp add: RoundTrip_def Let_def time_Now_def tracker_end_def time_Since_def Record_def
      Millisecond_def)

lemma RoundTrip_body_state:
  assumes "base tr req = (Some r, None)" and "Body r = Some (m, s)"
  shows "\<exists>c. RoundTrip sc tr req w =
              Inr ((Some \<lparr>StatusCode = StatusCode r, Body = Some (wrappedBodyIO Tracker m)\<rparr>, None), c)
           \<and> \<not> endOnce (trk c) \<and> body (trk c) = Some m \<and> bobj c = Some s
           \<and> labels (trk c) = HTTPClientAttributesFromHTTPRequest sc req @ HTTPAttributesFromHTTPStatusCode sc (StatusCode r)
           \<and> recorded (env c) = recorded w"
  using assms
  by (simp add: RoundTrip_def Let_def time_Now_def)

lemma RoundTrip_nil_response: "base tr req = (None, None) \<Longrightarrow> RoundTrip sc tr req w = Inl NilPointerDereference"
  by (simp add: RoundTrip_def Let_def time_Now_def)

lemma wrapped_cases: "wrappedBodyIO Tracker m = Tracker \<or> (\<exists>wr. wrappedBodyIO Tracker m = ReadCloserWriter Tracker wr)"
  by (simp add: wrappedBodyIO_def split: option.splits)

lemma ex_reset_RoundTrip:
  "RoundTrip ex_semconv ex_transport ''/reset'' ex_world =
     Inr ((Some \<lparr>StatusCode = 200, Body = Some Tracker\<rparr>, None),
          ex_call ''/reset'' False [([1, 2], 2, None), ([3, 0], 1, Some (OtherError ''reset''))])"
  by (simp add: RoundTrip_def ex_semconv_def ex_transport_def ex_base_def ex_world_def ex_call_def
      time_Now_def wrappedBodyIO_def ex_body_def)

lemma ex_reset_run:
  "run_ops Tracker
     (ex_call ''/reset'' False [([1, 2], 2, None), ([3, 0], 1, Some (OtherError ''reset''))])
     [OpRead [0, 0], OpRead [0, 0]] =
   Inr ([ReadResult [1, 2] 2 None, ReadResult [3, 0] 1 (Some (OtherError ''reset''))],
        ex_call ''/reset'' False [])"
  by (simp add: ex_call_def ex_body_def tracker_Read_def ex_Read_def)

lemma ex_data_RoundTrip:
  "RoundTrip ex_semconv ex_transport ''/data'' ex_world =
     Inr ((Some \<lparr>StatusCode = 200, Body = Some (wrappedBodyIO Tracker (ex_body True))\<rparr>, None),
          ex_call ''/data'' True [([1, 2], 2, None), ([3, 0], 1, None)])"
  by (simp add: RoundTrip_def ex_semconv_def ex_transport_def ex_base_def ex_world_def ex_call_def
      time_Now_def)

lemma ex_data_run:
  "run_ops (wrappedBodyIO Tracker (ex_body True))
     (ex_call ''/data'' True [([1, 2], 2, None), ([3, 0], 1, None)])
     [OpRead [0, 0], OpRead [0, 0], OpRead [0, 0], OpClose, OpClose] =
   Inr ([ReadResult [1, 2] 2 None, ReadResult [3, 0] 1 None, ReadResult [0, 0] 0 (Some EOF),
         CloseResult None, CloseResult None],
        ex_done ''/data'' True [])"
  by (simp add: ex_call_def ex_done_def wrappedBodyIO_def ex_body_def tracker_Read_def
      tracker_Close_def ex_Read_def tracker_end_def time_Since_def time_Now_def Record_def
      Duration_of_def Millisecond_def ex_sample_def Let_def)

text \<open>
  C1, as the claim states it, fails. The transport answers with a body; the caller reads
  twice, the second read fails with an error that is not end-of-stream, and the caller
  never closes the body. Neither read panics, the flag stays unset and the recorder has
  received no sample.
\<close>

theorem one_sample_counterexample:
  "RoundTrip ex_semconv ex_transport ''/reset'' ex_world =
     Inr ((Some \<lparr>StatusCode = 200, Body = Some Tracker\<rparr>, None),
          ex_call ''/reset'' False [([1, 2], 2, None), ([3, 0], 1, Some (OtherError ''reset''))])
   \<and> run_ops Tracker
        (ex_call ''/reset'' False [([1, 2], 2, None), ([3, 0], 1, Some (OtherError ''reset''))])
        [OpRead [0, 0], OpRead [0, 0]] =
      Inr ([ReadResult [1, 2] 2 None, ReadResult [3, 0] 1 (Some (OtherError ''reset''))],
           ex_call ''/reset'' False [])
   \<and> recorded (env (ex_call ''/reset'' False [])) = []
   \<and> length (recorded (env (ex_call ''/reset'' False []))) \<noteq> 1"
  using ex_reset_RoundTrip ex_reset_run by (simp add: ex_call_def)

text \<open>
  C1, amended. When \<open>RoundTrip\<close> returns, then over any sequence of \<open>Read\<close> and
  \<open>Close\<close> calls on the body of the response no call panics and the recorder receives
  at most one sample: the samples are the ones from before the call and \<open>new\<close>, and
  \<open>new\<close> has one element when the base transport returned an error or one of the
  calls was a \<open>Close\<close> or a \<open>Read\<close> that returned \<open>io.EOF\<close>, and none otherwise.
  When the response is \<open>nil\<close> or has no body, the recorder has received exactly one
  sample when \<open>RoundTrip\<close> returns. In any state \<open>c0\<close> of a call, a second \<open>end()\<close>
  after a first records nothing, and one \<open>end()\<close> records at most one sample.
\<close>

theorem RoundTrip_samples:
  assumes "RoundTrip sc tr req w = Inr ((resp, err), c)"
  shows "(\<forall>r rc ops. resp = Some r \<and> Body r = Some rc \<longrightarrow>
            (\<exists>rs c' new. run_ops rc c ops = Inr (rs, c') \<and> length rs = length ops
               \<and> recorded (env c') = recorded w @ new
               \<and> length new = (if err \<noteq> None \<or> (\<exists>x\<in>set rs. finalizes x) then 1 else 0)))
       \<and> ((resp = None \<or> (\<exists>r. resp = Some r \<and> Body r = None)) \<longrightarrow>
            (\<exists>s. recorded (env c) = recorded w @ [s]))
       \<and> recorded (env (tracker_end (tracker_end c0))) = recorded (env (tracker_end c0))
       \<and> length (recorded (env (tracker_end c0))) \<le> Suc (length (recorded (env c0)))"
proof -
  obtain bresp berr where b: "base tr req = (bresp, berr)" by (cases "base tr req")
  have idem: "recorded (env (tracker_end (tracker_end c0))) = recorded (env (tracker_end c0))"
    by (simp add: tracker_end_idem)
  have le: "length (recorded (env (tracker_end c0))) \<le> Suc (length (recorded (env c0)))"
    using tracker_end_recorded[of c0] tracker_end_done[of c0] by (cases "endOnce (trk c0)") auto
  have main: "(\<forall>r rc ops. resp = Some r \<and> Body r = Some rc \<longrightarrow>
            (\<exists>rs c' new. run_ops rc c ops = Inr (rs, c') \<and> length rs = length ops
               \<and> recorded (env c') = recorded w @ new
               \<and> length new = (if err \<noteq> None \<or> (\<exists>x\<in>set rs. finalizes x) then 1 else 0)))
       \<and> ((resp = None \<or> (\<exists>r. resp = Some r \<and> Body r = None)) \<longrightarrow>
            (\<exists>s. recorded (env c) = recorded w @ [s]))"
  proof (cases berr)
    case (Some e)
    from RoundTrip_error_state[of tr req bresp e sc w] b Some assms
    have st: "resp = map_option as_value bresp" "err = Some e" "endOnce (trk c)"
      "bobj c = (case bresp of None \<Rightarrow> None | Some r \<Rightarrow> map_option snd (Body r))"
      "\<exists>s. recorded (env c) = recorded w @ [s]"
      by auto
    have "\<exists>rs c' new. run_ops rc c ops = Inr (rs, c') \<and> length rs = length ops
               \<and> recorded (env c') = recorded w @ new
               \<and> length new = (if err \<noteq> None \<or> (\<exists>x\<in>set rs. finalizes x) then 1 else 0)"
      if h: "resp = Some r" "Body r = Some rc" for r rc ops
    proof -
      from h st(1) obtain br m s where br: "bresp = Some br" "Body br = Some (m, s)" "rc = Original m"
        by (auto simp: as_value_def)
      with st(4) have "bobj c \<noteq> None" by simp
      from run_ops_Original[OF this, of m ops] obtain rs c' where
        "run_ops (Original m) c ops = Inr (rs, c')" "length rs = length ops" "env c' = env c"
        by blast
      with st(2,5) br(3) show ?thesis by auto
    qed
    with st(5) show ?thesis by blast
  next
    case None
    show ?thesis
    proof (cases bresp)
      case N: None
      with None b assms show ?thesis by (simp add: RoundTrip_nil_response)
    next
      case (Some br)
      show ?thesis
      proof (cases "Body br")
        case N: None
        from RoundTrip_nil_body_state[of tr req br sc w] b None Some N assms
        have st: "resp = Some (as_value br)" "\<exists>s. recorded (env c) = recorded w @ [s]"
          by auto
        from st(1) N have "\<And>r. resp = Some r \<Longrightarrow> Body r = None" by (auto simp: as_value_def)
        with st(2) show ?thesis by auto
      next
        case S: (Some ms)
        obtain m s where ms: "ms = (m, s)" by (cases ms)
        from RoundTrip_body_state[of tr req br m s sc w] b None Some S ms assms
        have st: "resp = Some \<lparr>StatusCode = StatusCode br, Body = Some (wrappedBodyIO Tracker m)\<rparr>"
          "err = None" "\<not> endOnce (trk c)" "body (trk c) = Some m" "bobj c = Some s"
          "recorded (env c) = recorded w"
          by auto
        have cnt: "counted (recorded w) c" using st(3,6) by (simp add: counted_def)
        have bn: "bobj c \<noteq> None" using st(5) by simp
        have "\<exists>rs c' new. run_ops rc c ops = Inr (rs, c') \<and> length rs = length ops
               \<and> recorded (env c') = recorded w @ new
               \<and> length new = (if err \<noteq> None \<or> (\<exists>x\<in>set rs. finalizes x) then 1 else 0)"
          if h: "resp = Some r" "Body r = Some rc" for r rc ops
        proof -
          from h st(1) have rc: "rc = wrappedBodyIO Tracker m" by auto
          with wrapped_cases[of m] obtain wr where "rc = Tracker \<or> rc = ReadCloserWriter Tracker wr"
            by auto
          from run_ops_wrapped[OF this st(4) bn cnt, of ops] obtain rs c' where
            r: "run_ops rc c ops = Inr (rs, c')" "length rs = length ops" "counted (recorded w) c'"
               "endOnce (trk c') \<longleftrightarrow> endOnce (trk c) \<or> (\<exists>x\<in>set rs. finalizes x)"
            by blast
          from r(3) obtain new where "recorded (env c') = recorded w @ new"
            "length new = (if endOnce (trk c') then 1 else 0)"
            by (auto simp: counted_def)
          with r(1,2,4) st(2,3) show ?thesis by auto
        qed
        moreover have "\<not> (resp = None \<or> (\<exists>r. resp = Some r \<and> Body r = None))"
          using st(1) by auto
        ultimately show ?thesis by blast
      qed
    qed
  qed
  from main idem le show ?thesis by blast
qed

theorem RoundTrip_samples_witness:
  "RoundTrip ex_semconv ex_transport ''/data'' ex_world =
     Inr ((Some \<lparr>StatusCode = 200, Body = Some (wrappedBodyIO Tracker (ex_body True))\<rparr>, None),
          ex_call ''/data'' True [([1, 2], 2, None), ([3, 0], 1, None)])
   \<and> (\<exists>rs c' new.
         run_ops (wrappedBodyIO Tracker (ex_body True))
           (ex_call ''/data'' True [([1, 2], 2, None), ([3, 0], 1, None)])
           [OpRead [0, 0], OpRead [0, 0], OpRead [0, 0], OpClose, OpClose] = Inr (rs, c')
         \<and> length rs = 5 \<and> recorded (env c') = recorded ex_world @ new \<and> length new = 1)"
proof -
  note h = ex_data_RoundTrip
  have "\<exists>rs c' new.
          run_ops (wrappedBodyIO Tracker (ex_body True))
            (ex_call ''/data'' True [([1, 2], 2, None), ([3, 0], 1, None)])
            [OpRead [0, 0], OpRead [0, 0], OpRead [0, 0], OpClose, OpClose] = Inr (rs, c')
          \<and> length rs = length [OpRead [0, 0], OpRead [0, 0], OpRead [0, 0], OpClose, OpClose]
          \<and> recorded (env c') = recorded ex_world @ new
          \<and> length new =
              (if (None :: error option) \<noteq> None \<or> (\<exists>x\<in>set rs. finalizes x) then 1 else 0)"
    by (rule RoundTrip_samples[OF h, THEN conjunct1, rule_format,
          where r = "\<lparr>StatusCode = 200, Body = Some (wrappedBodyIO Tracker (ex_body True))\<rparr>"])
       simp
  then obtain rs c' new where
    r: "run_ops (wrappedBodyIO Tracker (ex_body True))
          (ex_call ''/data'' True [([1, 2], 2, None), ([3, 0], 1, None)])
          [OpRead [0, 0], OpRead [0, 0], OpRead [0, 0], OpClose, OpClose] = Inr (rs, c')"
       "length rs = length [OpRead [0, 0], OpRead [0, 0], OpRead [0, 0], OpClose, OpClose]"
       "recorded (env c') = recorded ex_world @ new"
       "length new = (if (None :: error option) \<noteq> None \<or> (\<exists>x\<in>set rs. finalizes x) then 1 else 0)"
    by blast
  from r(1) ex_data_run have "\<exists>x\<in>set rs. finalizes x" by auto
  with r(4) have "length new = 1" by simp
  with h r(1,2,3) show ?thesis by auto
qed

subsection \<open>The three ways out of RoundTrip\<close>

text \<open>
  C2. When the \<open>RoundTrip\<close> of the base transport returns an error, the instrumented
  \<open>RoundTrip\<close> returns that error, and the response as the base gave it. When it
  returns, the measurement is final (the flag is set and the recorder has received one
  more sample, for the recorder and the context of the call), and the labels of the
  tracker and of the sample are the attributes of the request followed by the
  attributes of the status code 500.
\<close>

theorem RoundTrip_error_finalizes:
  assumes "base tr req = (resp, Some e)"
  shows "\<exists>c. RoundTrip sc tr req w = Inr ((map_option as_value resp, Some e), c)
           \<and> endOnce (trk c)
           \<and> labels (trk c) =
               HTTPClientAttributesFromHTTPRequest sc req @ HTTPAttributesFromHTTPStatusCode sc 500
           \<and> recorded (env c) = recorded w @
               [\<lparr>instrument = transport_recorder tr, sample_ctx = Context sc req,
                 sample_value =
                   real_of_int (Duration_of (clock w (Suc (ticks w)) - clock w (ticks w))) / 1000000,
                 sample_labels =
                   HTTPClientAttributesFromHTTPRequest sc req @ HTTPAttributesFromHTTPStatusCode sc 500\<rparr>]"
  using RoundTrip_error_state[OF assms, of sc w] by blast

theorem RoundTrip_error_finalizes_witness:
  "base ex_transport ''/down'' = (None, Some (OtherError ''connection refused''))
   \<and> (\<exists>c. RoundTrip ex_semconv ex_transport ''/down'' ex_world =
             Inr ((None, Some (OtherError ''connection refused'')), c)
           \<and> endOnce (trk c)
           \<and> labels (trk c) = [HTTPMethod ''GET'', HTTPUrl ''/down'', HTTPStatusCode 500]
           \<and> recorded (env c) = [ex_sample ''/down'' 500])"
proof -
  have h: "base ex_transport ''/down'' = (None, Some (OtherError ''connection refused''))"
    by (simp add: ex_transport_def ex_base_def)
  from RoundTrip_error_finalizes[OF h, of ex_semconv ex_world] h show ?thesis
    by (simp add: ex_semconv_def ex_world_def ex_sample_def ex_transport_def Duration_of_def)
qed

text \<open>
  C5. When the base transport returns a response without a body and no error, the
  instrumented \<open>RoundTrip\<close> returns that response and no error. When it returns, the
  measurement is final, and the labels of the tracker and of the sample are the
  attributes of the request followed by the attributes of the status code of the
  response.
\<close>

theorem RoundTrip_nil_body_finalizes:
  assumes "base tr req = (Some r, None)" and "Body r = None"
  shows "\<exists>c. RoundTrip sc tr req w = Inr ((Some (as_value r), None), c)
           \<and> Body (as_value r) = None \<and> StatusCode (as_value r) = StatusCode r
           \<and> endOnce (trk c)
           \<and> labels (trk c) =
               HTTPClientAttributesFromHTTPRequest sc req
                 @ HTTPAttributesFromHTTPStatusCode sc (StatusCode r)
           \<and> recorded (env c) = recorded w @
               [\<lparr>instrument = transport_recorder tr, sample_ctx = Context sc req,
                 sample_value =
                   real_of_int (Duration_of (clock w (Suc (ticks w)) - clock w (ticks w))) / 1000000,
                 sample_labels =
                   HTTPClientAttributesFromHTTPRequest sc req
                     @ HTTPAttributesFromHTTPStatusCode sc (StatusCode r)\<rparr>]"
  using RoundTrip_nil_body_state[OF assms, of sc w] assms(2) by (auto simp: as_value_def)

theorem RoundTrip_nil_body_finalizes_witness:
  "base ex_transport ''/empty'' = (Some \<lparr>StatusCode = 204, Body = None\<rparr>, None)
   \<and> (\<exists>c. RoundTrip ex_semconv ex_transport ''/empty'' ex_world =
             Inr ((Some \<lparr>StatusCode = 204, Body = None\<rparr>, None), c)
           \<and> endOnce (trk c)
           \<and> labels (trk c) = [HTTPMethod ''GET'', HTTPUrl ''/empty'', HTTPStatusCode 204]
           \<and> recorded (env c) = [ex_sample ''/empty'' 204])"
proof -
  have h: "base ex_transport ''/empty'' = (Some \<lparr>StatusCode = 204, Body = None\<rparr>, None)"
    by (simp add: ex_transport_def ex_base_def)
  have b: "Body \<lparr>StatusCode = 204,
                  Body = None :: ((read_result list, (nat, ex_label, string) world) body_type
                                  \<times> read_result list) option\<rparr> = None"
    by simp
  from RoundTrip_nil_body_finalizes[OF h b, of ex_semconv ex_world] h show ?thesis
    by (simp add: ex_semconv_def ex_world_def ex_sample_def ex_transport_def Duration_of_def
        as_value_def)
qed

subsection \<open>Read and Close of the tracker\<close>

text \<open>
  C3. A \<open>Read\<close> on a tracker with a body returns the buffer, the byte count and the
  error of the \<open>Read\<close> of the body. It calls \<open>end()\<close> when that error is \<open>io.EOF\<close>;
  for every other result, \<open>nil\<close> or another error, the tracker and the samples are as
  they were before the call.
\<close>

theorem tracker_Read_passthrough:
  assumes "body (trk c) = Some m" and "bobj c = Some s" and "Read_m m s b = ((b', n, err), s')"
  shows "\<exists>c'. tracker_Read c b = Inr ((b', n, err), c')
           \<and> (err = Some EOF \<longrightarrow> c' = tracker_end (c\<lparr>bobj := Some s'\<rparr>) \<and> endOnce (trk c'))
           \<and> (err \<noteq> Some EOF \<longrightarrow> c' = c\<lparr>bobj := Some s'\<rparr> \<and> trk c' = trk c \<and> env c' = env c)"
  using assms tracker_end_endOnce[of "c\<lparr>bobj := Some s'\<rparr>"]
  by (simp add: tracker_Read_def Let_def split: option.splits)

theorem tracker_Read_passthrough_witness:
  "body (trk (ex_call ''/reset'' False [([3, 0], 1, Some (OtherError ''reset''))])) = Some (ex_body False)
   \<and> Read_m (ex_body False) [([3, 0], 1, Some (OtherError ''reset''))] [0, 0] =
       (([3, 0], 1, Some (OtherError ''reset'')), [])
   \<and> tracker_Read (ex_call ''/reset'' False [([3, 0], 1, Some (OtherError ''reset''))]) [0, 0] =
       Inr (([3, 0], 1, Some (OtherError ''reset'')), ex_call ''/reset'' False [])
   \<and> Read_m (ex_body False) [] [0, 0] = (([0, 0], 0, Some EOF), [])
   \<and> tracker_Read (ex_call ''/reset'' False []) [0, 0] =
       Inr (([0, 0], 0, Some EOF), ex_done ''/reset'' False [])"
proof -
  let ?c = "ex_call ''/reset'' False [([3, 0], 1, Some (OtherError ''reset''))]"
  let ?d = "ex_call ''/reset'' False []"
  have h1: "body (trk ?c) = Some (ex_body False)" "body (trk ?d) = Some (ex_body False)"
    by (simp_all add: ex_call_def)
  have h2: "bobj ?c = Some [([3, 0], 1, Some (OtherError ''reset''))]" "bobj ?d = Some []"
    by (simp_all add: ex_call_def)
  have h3: "Read_m (ex_body False) [([3, 0], 1, Some (OtherError ''reset''))] [0, 0] =
              (([3, 0], 1, Some (OtherError ''reset'')), [])"
    by (simp add: ex_body_def ex_Read_def)
  have h4: "Read_m (ex_body False) [] [0, 0] = (([0, 0], 0, Some EOF), [])"
    by (simp add: ex_body_def ex_Read_def)
  have e: "tracker_end (?d\<lparr>bobj := Some []\<rparr>) = ex_done ''/reset'' False []"
    by (simp add: ex_call_def ex_done_def tracker_end_def time_Since_def time_Now_def Record_def
        Duration_of_def Millisecond_def ex_sample_def Let_def)
  have u: "?c\<lparr>bobj := Some []\<rparr> = ?d" by (simp add: ex_call_def)
  from tracker_Read_passthrough[OF h1(1) h2(1) h3] tracker_Read_passthrough[OF h1(2) h2(2) h4]
    h1 h3 h4 e u
  show ?thesis by auto
qed

text \<open>
  C4. A \<open>Close\<close> on a tracker with a body calls \<open>end()\<close> first and then the \<open>Close\<close>
  of the body, and returns what that returned. The body's \<open>Close\<close> is called on the
  body as it was before the call, in the world as \<open>end()\<close> has left it: when the flag
  was not set, \<open>end()\<close> has set it and the recorder has received the sample of the
  tracker before the body is closed; when the flag was set, \<open>end()\<close> has changed
  nothing, and the body is closed all the same. Nothing is assumed of the flag.
\<close>

theorem tracker_Close_passthrough:
  assumes "body (trk c) = Some m" and "bobj c = Some s"
    and "Close_m m s (env (tracker_end c)) = (err, s')"
  shows "tracker_Close c = Inr (err, (tracker_end c)\<lparr>bobj := Some s'\<rparr>)
           \<and> endOnce (trk ((tracker_end c)\<lparr>bobj := Some s'\<rparr>))
           \<and> (\<not> endOnce (trk c) \<longrightarrow>
                recorded (env (tracker_end c)) = recorded (env c) @
                  [\<lparr>instrument = clientDurationRecorder (trk c), sample_ctx = ctx (trk c),
                    sample_value =
                      real_of_int (Duration_of (clock (env c) (ticks (env c)) - start (trk c)))
                        / 1000000,
                    sample_labels = labels (trk c)\<rparr>])
           \<and> (endOnce (trk c) \<longrightarrow> tracker_end c = c)"
  using assms tracker_end_frame[of c] tracker_end_endOnce[of c] tracker_end_recorded[of c]
    tracker_end_done[of c]
  by (simp add: tracker_Close_def Let_def)

theorem tracker_Close_passthrough_witness:
  "\<not> endOnce (trk (ex_call ''/data'' True [([3, 0], 1, None)]))
   \<and> recorded (env (ex_call ''/data'' True [([3, 0], 1, None)])) = []
   \<and> Close_m (ex_body True) [([3, 0], 1, None)] (env (ex_call ''/data'' True [([3, 0], 1, None)])) =
       (Some (OtherError ''not measured''), [])
   \<and> Close_m (ex_body True) [([3, 0], 1, None)]
        (env (tracker_end (ex_call ''/data'' True [([3, 0], 1, None)]))) = (None, [])
   \<and> tracker_Close (ex_call ''/data'' True [([3, 0], 1, None)]) =
       Inr (None, ex_done ''/data'' True [])
   \<and> recorded (env (ex_done ''/data'' True [])) = [ex_sample ''/data'' 200]
   \<and> endOnce (trk (ex_done ''/data'' True [([3, 0], 1, None)]))
   \<and> Close_m (ex_body True) [([3, 0], 1, None)]
        (env (tracker_end (ex_done ''/data'' True [([3, 0], 1, None)]))) = (None, [])
   \<and> tracker_Close (ex_done ''/data'' True [([3, 0], 1, None)]) =
       Inr (None, ex_done ''/data'' True [])"
proof -
  let ?c = "ex_call ''/data'' True [([3, 0], 1, None)]"
  let ?d = "ex_done ''/data'' True [([3, 0], 1, None)]"
  have f: "\<not> endOnce (trk ?c)" "recorded (env ?c) = []" by (simp_all add: ex_call_def)
  have d: "endOnce (trk ?d)" "recorded (env (ex_done ''/data'' True [])) = [ex_sample ''/data'' 200]"
    by (simp_all add: ex_done_def ex_call_def)
  have e: "tracker_end ?c = ?d"
    by (simp add: ex_call_def ex_done_def tracker_end_def time_Since_def time_Now_def Record_def
        Duration_of_def Millisecond_def ex_sample_def Let_def)
  have e': "tracker_end ?d = ?d" using d(1) by (simp add: tracker_end_def)
  have b: "body (trk ?c) = Some (ex_body True)" "body (trk ?d) = Some (ex_body True)"
    by (simp_all add: ex_done_def ex_call_def)
  have o: "bobj ?c = Some [([3, 0], 1, None)]" "bobj ?d = Some [([3, 0], 1, None)]"
    by (simp_all add: ex_done_def ex_call_def)
  have before: "Close_m (ex_body True) [([3, 0], 1, None)] (env ?c) =
                  (Some (OtherError ''not measured''), [])"
    by (simp add: ex_body_def ex_call_def)
  have h1: "Close_m (ex_body True) [([3, 0], 1, None)] (env (tracker_end ?c)) = (None, [])"
    unfolding e by (simp add: ex_body_def ex_done_def ex_call_def)
  have h2: "Close_m (ex_body True) [([3, 0], 1, None)] (env (tracker_end ?d)) = (None, [])"
    unfolding e' by (simp add: ex_body_def ex_done_def ex_call_def)
  have u: "?d\<lparr>bobj := Some []\<rparr> = ex_done ''/data'' True []"
    by (simp add: ex_done_def ex_call_def)
  from tracker_Close_passthrough[OF b(1) o(1) h1] tracker_Close_passthrough[OF b(2) o(2) h2]
    f d before h1 h2 e e' u
  show ?thesis by simp
qed

subsection \<open>The capability to be written to\<close>

text \<open>
  C6. The value \<open>wrappedBodyIO\<close> returns for the tracker and a body is an \<open>io.Writer\<close>
  exactly when the body is one. When the body has a \<open>Write\<close> method, the value is the
  struct of the wrapper and the body's writer; when it has none, the value is the
  wrapper itself.
\<close>

theorem wrappedBodyIO_capability:
  "(is_Writer (wrappedBodyIO Tracker bd) \<longleftrightarrow> is_Writer (Original bd))
   \<and> (\<forall>wr. Write_m bd = Some wr \<longrightarrow> wrappedBodyIO wrapper bd = ReadCloserWriter wrapper wr)
   \<and> (Write_m bd = None \<longrightarrow> wrappedBodyIO wrapper bd = wrapper)"
  by (simp add: wrappedBodyIO_def split: option.splits)

theorem wrappedBodyIO_capability_witness:
  "Write_m (ex_body False) = None
   \<and> wrappedBodyIO Tracker (ex_body False) = Tracker
   \<and> \<not> is_Writer (wrappedBodyIO Tracker (ex_body False))
   \<and> Write_m (ex_body True) = Some (\<lambda>s b. ((length b, None), s))
   \<and> wrappedBodyIO Tracker (ex_body True) = ReadCloserWriter Tracker (\<lambda>s b. ((length b, None), s))
   \<and> is_Writer (wrappedBodyIO Tracker (ex_body True))"
proof -
  have h1: "Write_m (ex_body False) = None" by (simp add: ex_body_def)
  have h2: "Write_m (ex_body True) = Some (\<lambda>s b. ((length b, None), s))" by (simp add: ex_body_def)
  from wrappedBodyIO_capability[of "ex_body False" Tracker]
       wrappedBodyIO_capability[of "ex_body True" Tracker] h1 h2
  show ?thesis by simp
qed

text \<open>
  C10. When the body has a \<open>Write\<close> method, a \<open>Write\<close> on the value \<open>RoundTrip\<close>
  puts in the response is the \<open>Write\<close> of the body: it returns what that returns and
  changes the body object only. The tracker, with its flag, and the world, with the
  samples, are as they were before the call.
\<close>

theorem Write_bypasses_tracker:
  assumes "Write_m m = Some wr" and "bobj c = Some s" and "wr s b = (r, s')"
  shows "\<exists>c'. Write (wrappedBodyIO Tracker m) c b = Some (Inr (r, c'))
           \<and> Write (Original m) c b = Some (Inr (r, c'))
           \<and> c' = c\<lparr>bobj := Some s'\<rparr>
           \<and> trk c' = trk c \<and> env c' = env c
           \<and> endOnce (trk c') = endOnce (trk c) \<and> recorded (env c') = recorded (env c)"
  using assms by (simp add: wrappedBodyIO_def)

theorem Write_bypasses_tracker_witness:
  "Write_m (ex_body True) = Some (\<lambda>s b. ((length b, None), s))
   \<and> bobj (ex_call ''/data'' True [([3, 0], 1, None)]) = Some [([3, 0], 1, None)]
   \<and> Write (wrappedBodyIO Tracker (ex_body True)) (ex_call ''/data'' True [([3, 0], 1, None)]) [9, 9, 9] =
       Some (Inr ((3, None), ex_call ''/data'' True [([3, 0], 1, None)]))"
proof -
  let ?c = "ex_call ''/data'' True [([3, 0], 1, None)]"
  have h1: "Write_m (ex_body True) = Some (\<lambda>s b. ((length b, None), s))" by (simp add: ex_body_def)
  have h2: "bobj ?c = Some [([3, 0], 1, None)]" by (simp add: ex_call_def)
  have h3: "(\<lambda>s b. ((length b, None), s)) [([3, 0], 1, None :: error option)] [9, 9, 9 :: 8 word]
              = ((3, None :: error option), [([3, 0], 1, None)] :: read_result list)"
    by simp
  have u: "?c\<lparr>bobj := Some [([3, 0], 1, None)]\<rparr> = ?c" by (simp add: ex_call_def)
  from Write_bypasses_tracker[OF h1 h2 h3] h1 h2 u show ?thesis by auto
qed

section \<open>Properties of the span filter\<close>

lemma OTelFilter_resolved:
  "OTelFilter api g service opts =
     filter_func api
       ((foldl (\<lambda>cfg opt. opt cfg) \<lparr>Tracer = None, Propagators = None\<rparr> opts)
          \<lparr>Tracer := Some (case Tracer (foldl (\<lambda>cfg opt. opt cfg) \<lparr>Tracer = None, Propagators = None\<rparr> opts) of
                            None \<Rightarrow> TraceProvider g tracerName tracerVersion | Some t \<Rightarrow> t),
           Propagators := Some (case Propagators (foldl (\<lambda>cfg opt. opt cfg) \<lparr>Tracer = None, Propagators = None\<rparr> opts) of
                            None \<Rightarrow> global_Propagators g | Some p \<Rightarrow> p)\<rparr>)
       service"
proof -
  define cfg0 where "cfg0 = foldl (\<lambda>cfg opt. opt cfg) \<lparr>Tracer = None, Propagators = None :: 'b option\<rparr> opts"
  have t: "Tracer cfg0 = Some t \<Longrightarrow> cfg0\<lparr>Tracer := Some t\<rparr> = cfg0" for t
    by (cases cfg0) auto
  have p: "Propagators c = Some p \<Longrightarrow> c\<lparr>Propagators := Some p\<rparr> = c" for p and c :: "('a, 'b) Config"
    by (cases c) auto
  show ?thesis
    unfolding OTelFilter_def Let_def cfg0_def[symmetric]
    by (cases "Tracer cfg0"; cases "Propagators cfg0") (simp_all add: t p)
qed

lemma filter_func_events:
  assumes "Tracer cfg = Some t"
  shows "\<exists>mid.
     fst (filter_func api cfg service g req resp chain) =
       TracerStart t (ExtractHTTP api (req_ctx (Request req)) (Propagators cfg) (Header (Request req)))
            (SelectedRoutePath req)
            [WithAttributes (NetAttributesFromHTTPRequest api ''tcp'' (Request req)),
             WithAttributes (EndUserAttributesFromHTTPRequest api (Request req)),
             WithAttributes (HTTPServerAttributesFromHTTPRequest api service (SelectedRoutePath req) (Request req)),
             WithSpanKind SpanKindServer]
       # ProcessFilter (fst (snd (filter_func api cfg service g req resp chain))) resp
       # mid @ [SpanEnd (snd (Tracer_Start api t
            (ExtractHTTP api (req_ctx (Request req)) (Propagators cfg) (Header (Request req)))
            (SelectedRoutePath req)
            [WithAttributes (NetAttributesFromHTTPRequest api ''tcp'' (Request req)),
             WithAttributes (EndUserAttributesFromHTTPRequest api (Request req)),
             WithAttributes (HTTPServerAttributesFromHTTPRequest api service (SelectedRoutePath req) (Request req)),
             WithSpanKind SpanKindServer]))]
     \<and> filter (\<lambda>e. is_start e \<or> is_chain e \<or> is_end e) mid = []"
  using assms
  by (auto simp: filter_func_def Let_def split: prod.splits outcome.splits)


lemma OTelFilter_Tracer:
  "\<exists>cfg t. OTelFilter api g service opts = filter_func api cfg service \<and> Tracer cfg = Some t"
  by (subst OTelFilter_resolved) auto

lemma ex_handler_run:
  "OTelFilter ex_api ex_globals ''svc'' [] ex_later_globals ex_request 0 ex_handler =
     ([TracerStart ''global'' [''tracecontext''] ''/items/{id}'' ex_start_options,
       ProcessFilter ex_traced_request 0,
       SetAttributes 1 [IntAttr ''http.status_code'' 404],
       SetStatus 1 2 ''error'',
       SpanEnd 1],
      ex_traced_request, Returned 404)"
  by (simp add: OTelFilter_def filter_func_def Let_def ex_api_def ex_globals_def ex_request_def
      ex_handler_def ex_start_options_def ex_traced_request_def)

lemma ex_panicking_run:
  "OTelFilter ex_api ex_globals ''svc'' [] ex_later_globals ex_request 0 ex_panicking =
     ([TracerStart ''global'' [''tracecontext''] ''/items/{id}'' ex_start_options,
       ProcessFilter ex_traced_request 0,
       SpanEnd 1],
      ex_traced_request, Panicked (Inr ''boom'') 500)"
  by (simp add: OTelFilter_def filter_func_def Let_def ex_api_def ex_globals_def ex_request_def
      ex_panicking_def ex_start_options_def ex_traced_request_def)

lemma ex_WithTracer_run:
  "OTelFilter ex_api ex_globals ''svc'' [ex_WithTracer ''mine''] g' ex_request 0 ex_handler =
     ([TracerStart ''mine'' [''tracecontext''] ''/items/{id}'' ex_start_options,
       ProcessFilter ex_traced_request 0,
       SetAttributes 1 [IntAttr ''http.status_code'' 404],
       SetStatus 1 2 ''error'',
       SpanEnd 1],
      ex_traced_request, Returned 404)"
  by (simp add: OTelFilter_def filter_func_def Let_def ex_api_def ex_globals_def ex_request_def
      ex_handler_def ex_start_options_def ex_traced_request_def ex_WithTracer_def)

text \<open>
  C7. Whatever the configuration, the request and the rest of the chain, and whether
  the chain returns or panics, the calls of the filter are: one \<open>Start\<close> on the
  tracer, then the chain, then calls that are neither, then one \<open>End\<close>, on the span
  that \<open>Start\<close> returned. So among the calls there is exactly one \<open>Start\<close>, one call
  of the chain and one \<open>End\<close>, in this order.
\<close>

theorem OTelFilter_span_once:
  "\<exists>t c os mid.
     fst (OTelFilter api g service opts g' req resp chain) =
       TracerStart t c (SelectedRoutePath req) os
       # ProcessFilter (fst (snd (OTelFilter api g service opts g' req resp chain))) resp
       # mid @ [SpanEnd (snd (Tracer_Start api t c (SelectedRoutePath req) os))]
     \<and> filter (\<lambda>e. is_start e \<or> is_chain e \<or> is_end e) mid = []
     \<and> length (filter is_start (fst (OTelFilter api g service opts g' req resp chain))) = 1
     \<and> length (filter is_chain (fst (OTelFilter api g service opts g' req resp chain))) = 1
     \<and> length (filter is_end (fst (OTelFilter api g service opts g' req resp chain))) = 1"
proof -
  obtain cfg t where c: "OTelFilter api g service opts g' req resp chain =
      filter_func api cfg service g' req resp chain" "Tracer cfg = Some t"
    using OTelFilter_Tracer[of api g service opts] by metis
  from filter_func_events[OF c(2), of api service g' req resp chain] obtain c1 os mid where
    e: "fst (filter_func api cfg service g' req resp chain) =
          TracerStart t c1 (SelectedRoutePath req) os
          # ProcessFilter (fst (snd (filter_func api cfg service g' req resp chain))) resp
          # mid @ [SpanEnd (snd (Tracer_Start api t c1 (SelectedRoutePath req) os))]"
       "filter (\<lambda>e. is_start e \<or> is_chain e \<or> is_end e) mid = []"
    by blast
  from e(2) have m: "filter is_start mid = []" "filter is_chain mid = []" "filter is_end mid = []"
    by (auto simp: filter_empty_conv)
  from e(1) m have
    "length (filter is_start (fst (filter_func api cfg service g' req resp chain))) = 1"
    "length (filter is_chain (fst (filter_func api cfg service g' req resp chain))) = 1"
    "length (filter is_end (fst (filter_func api cfg service g' req resp chain))) = 1"
    by simp_all
  with e show ?thesis
    unfolding c(1)
    by (intro exI[of _ t] exI[of _ c1] exI[of _ os] exI[of _ mid]) simp
qed

theorem OTelFilter_span_once_witness:
  "fst (OTelFilter ex_api ex_globals ''svc'' [] ex_later_globals ex_request 0 ex_panicking) =
     [TracerStart ''global'' [''tracecontext''] ''/items/{id}'' ex_start_options,
      ProcessFilter ex_traced_request 0,
      SpanEnd 1]
   \<and> snd (snd (OTelFilter ex_api ex_globals ''svc'' [] ex_later_globals ex_request 0 ex_panicking)) =
       Panicked (Inr ''boom'') 500
   \<and> length (filter is_start
        (fst (OTelFilter ex_api ex_globals ''svc'' [] ex_later_globals ex_request 0 ex_panicking))) = 1
   \<and> length (filter is_end
        (fst (OTelFilter ex_api ex_globals ''svc'' [] ex_later_globals ex_request 0 ex_panicking))) = 1"
  using OTelFilter_span_once[of ex_api ex_globals "''svc''" "[]" ex_later_globals ex_request 0 ex_panicking]
    ex_panicking_run
  by simp

text \<open>
  C8. Let the filter make the calls \<open>evs\<close>, pass the request \<open>req'\<close> on and end
  with \<open>out\<close>. The filter returns with the response \<open>resp'\<close> exactly when the chain
  does. When the chain does, the calls are: \<open>Start\<close> with the selected route path of
  the request as the name of the span, the chain, \<open>SetAttributes\<close> with the attributes
  of the status code of \<open>resp'\<close>, \<open>SetStatus\<close> with the code and the message of
  that same status code, and \<open>End\<close>, the last three on the span \<open>Start\<close> returned.
\<close>

theorem OTelFilter_normal_return:
  assumes "OTelFilter api g service opts g' req resp chain = (evs, req', out)"
  shows "(out = Returned resp' \<longleftrightarrow> chain req' resp = Returned resp')
       \<and> (chain req' resp = Returned resp' \<longrightarrow>
            (\<exists>t c os c' sp.
               Tracer_Start api t c (SelectedRoutePath req) os = (c', sp)
               \<and> evs = [TracerStart t c (SelectedRoutePath req) os,
                        ProcessFilter req' resp,
                        SetAttributes sp (AttributesFromHTTPStatusCode api (Response_StatusCode api resp')),
                        SetStatus sp
                          (fst (SpanStatusFromHTTPStatusCode api (Response_StatusCode api resp')))
                          (snd (SpanStatusFromHTTPStatusCode api (Response_StatusCode api resp'))),
                        SpanEnd sp]))"
proof -
  obtain cfg t where c: "OTelFilter api g service opts g' req resp chain =
      filter_func api cfg service g' req resp chain" "Tracer cfg = Some t"
    using OTelFilter_Tracer[of api g service opts] by metis
  from assms have "filter_func api cfg service g' req resp chain = (evs, req', out)"
    by (simp add: c(1))
  with c(2) show ?thesis
    by (auto simp: filter_func_def Let_def split: prod.splits outcome.splits)
qed

theorem OTelFilter_normal_return_witness:
  "OTelFilter ex_api ex_globals ''svc'' [] ex_later_globals ex_request 0 ex_handler =
     ([TracerStart ''global'' [''tracecontext''] ''/items/{id}'' ex_start_options,
       ProcessFilter ex_traced_request 0,
       SetAttributes 1 [IntAttr ''http.status_code'' 404],
       SetStatus 1 2 ''error'',
       SpanEnd 1],
      ex_traced_request, Returned 404)
   \<and> ex_handler ex_traced_request 0 = Returned 404
   \<and> SelectedRoutePath ex_request = ''/items/{id}''
   \<and> AttributesFromHTTPStatusCode ex_api (Response_StatusCode ex_api 404) = [IntAttr ''http.status_code'' 404]
   \<and> SpanStatusFromHTTPStatusCode ex_api (Response_StatusCode ex_api 404) = (2, ''error'')"
  using OTelFilter_normal_return[OF ex_handler_run, of 404] ex_handler_run
  by (simp add: ex_api_def ex_request_def ex_handler_def ex_traced_request_def)

text \<open>
  C9. Let \<open>cfg0\<close> be the configuration after the options, \<open>t\<close> its tracer, or the
  tracer of the registered provider for \<open>tracerName\<close> and \<open>tracerVersion\<close> when it
  has none, and \<open>p\<close> its propagators, or the registered ones when it has none, the
  registry being \<open>g\<close>, as it is when \<open>OTelFilter\<close> is called. The filter returned is
  the function literal over the configuration with \<open>t\<close> and \<open>p\<close>; run with the
  registry in the state \<open>g1\<close> or in the state \<open>g2\<close> it does the same; and it
  extracts the context with \<open>p\<close> and starts the span on \<open>t\<close>.
\<close>

theorem OTelFilter_config_resolution:
  "let cfg0 = foldl (\<lambda>cfg opt. opt cfg) \<lparr>Tracer = None, Propagators = None\<rparr> opts;
       t = (case Tracer cfg0 of None \<Rightarrow> TraceProvider g tracerName tracerVersion | Some t' \<Rightarrow> t');
       p = (case Propagators cfg0 of None \<Rightarrow> global_Propagators g | Some p' \<Rightarrow> p')
   in OTelFilter api g service opts g1 req resp chain =
        filter_func api (cfg0\<lparr>Tracer := Some t, Propagators := Some p\<rparr>) service g1 req resp chain
      \<and> OTelFilter api g service opts g1 req resp chain =
          OTelFilter api g service opts g2 req resp chain
      \<and> (\<exists>os rest. fst (OTelFilter api g service opts g1 req resp chain) =
            TracerStart t (ExtractHTTP api (req_ctx (Request req)) (Some p) (Header (Request req)))
              (SelectedRoutePath req) os # rest)"
proof -
  have indep: "filter_func api cfg service g1 req resp chain =
      filter_func api cfg service g2 req resp chain" for cfg
    by (simp add: filter_func_def)
  have hd: "\<exists>os rest. fst (filter_func api cfg service g1 req resp chain) =
            TracerStart t (ExtractHTTP api (req_ctx (Request req)) (Propagators cfg) (Header (Request req)))
              (SelectedRoutePath req) os # rest"
    if "Tracer cfg = Some t" for cfg t
    using filter_func_events[OF that, of api service g1 req resp chain] by blast
  define cfg0 where
    "cfg0 = foldl (\<lambda>cfg opt. opt cfg) \<lparr>Tracer = None, Propagators = None :: 'b option\<rparr> opts"
  define t where
    "t = (case Tracer cfg0 of None \<Rightarrow> TraceProvider g tracerName tracerVersion | Some t' \<Rightarrow> t')"
  define p where
    "p = (case Propagators cfg0 of None \<Rightarrow> global_Propagators g | Some p' \<Rightarrow> p')"
  let ?cfg = "cfg0\<lparr>Tracer := Some t, Propagators := Some p\<rparr>"
  have r: "OTelFilter api g service opts g' req resp chain =
      filter_func api ?cfg service g' req resp chain" for g'
    unfolding cfg0_def t_def p_def by (subst OTelFilter_resolved) (rule refl)
  have "Tracer ?cfg = Some t" "Propagators ?cfg = Some p" by simp_all
  with hd[of ?cfg t] have
    "\<exists>os rest. fst (filter_func api ?cfg service g1 req resp chain) =
            TracerStart t (ExtractHTTP api (req_ctx (Request req)) (Some p) (Header (Request req)))
              (SelectedRoutePath req) os # rest"
    by simp
  with r[of g1] r[of g2] indep[of ?cfg] show ?thesis
    unfolding Let_def cfg0_def[symmetric] t_def[symmetric] p_def[symmetric] by simp
qed

theorem OTelFilter_config_resolution_witness:
  "OTelFilter ex_api ex_globals ''svc'' [ex_WithTracer ''mine''] ex_later_globals ex_request 0 ex_handler =
     OTelFilter ex_api ex_globals ''svc'' [ex_WithTracer ''mine''] ex_globals ex_request 0 ex_handler
   \<and> fst (OTelFilter ex_api ex_globals ''svc'' [ex_WithTracer ''mine''] ex_later_globals ex_request 0 ex_handler) =
       [TracerStart ''mine'' [''tracecontext''] ''/items/{id}'' ex_start_options,
        ProcessFilter ex_traced_request 0,
        SetAttributes 1 [IntAttr ''http.status_code'' 404],
        SetStatus 1 2 ''error'',
        SpanEnd 1]
   \<and> global_Propagators ex_later_globals = ''b3''
   \<and> TraceProvider ex_later_globals tracerName tracerVersion = ''replaced''"
  using OTelFilter_config_resolution[of "[ex_WithTracer ''mine'']" ex_globals ex_api "''svc''"
      ex_later_globals ex_request 0 ex_handler ex_globals]
    ex_WithTracer_run
  by (simp add: ex_later_globals_def)

end
